theory Spec2Isabelle
  imports Complex_Main
begin

section \<open>Python floats\<close>

text \<open>
  The program computes with Python \<^verbatim>\<open>float\<close>s, that is IEEE 754 binary64 values. A float is
  modelled by the real number it denotes, or one of the two infinities, or NaN. The two zeros
  are identified: nothing in \<^verbatim>\<open>app.py\<close> tells them apart (Python raises on a division by either,
  comparisons treat them as equal, and a zero is always displayed through \<^verbatim>\<open>round\<close>).
  Every arithmetic operation computes the exact real result and rounds it to the nearest
  binary64 value, ties to even, as IEEE 754 prescribes for \<^verbatim>\<open>+ - * /\<close>.
\<close>

datatype pyfloat = Finite real | PInf | NInf | NaN

fun bit_length :: "nat \<Rightarrow> nat" where
  "bit_length n = (if n = 0 then 0 else Suc (bit_length (n div 2)))"

declare bit_length.simps [simp del]

definition pow2 :: "int \<Rightarrow> real" where
  "pow2 e = (if 0 \<le> e then 2 ^ nat e else 1 / 2 ^ nat (- e))"

text \<open>The binary exponent \<open>\<lfloor>log\<^sub>2 a\<rfloor>\<close> of a positive number, computed on integers.\<close>

definition ilog2 :: "real \<Rightarrow> int" where
  "ilog2 a = (if 1 \<le> a then int (bit_length (nat \<lfloor>a\<rfloor>)) - 1
              else - int (bit_length (nat (\<lceil>1 / a\<rceil> - 1))))"

definition round_half_even :: "real \<Rightarrow> int" where
  "round_half_even r =
     (let f = \<lfloor>r\<rfloor>; d = r - of_int f
      in if d < 1 / 2 then f else if 1 / 2 < d then f + 1
         else if even f then f else f + 1)"

text \<open>
  Rounding to binary64: 53 significant bits, the exponent of the last place never below
  \<open>-1074\<close> (subnormal numbers), overflow to an infinity from \<open>2\<^sup>1\<^sup>0\<^sup>2\<^sup>4\<close> on.
\<close>

definition round64 :: "real \<Rightarrow> pyfloat" where
  "round64 q =
     (if q = 0 then Finite 0
      else let a = \<bar>q\<bar>;
               e = max (ilog2 a) (- 1022);
               u = pow2 (e - 52);
               v = of_int (round_half_even (a / u)) * u
           in if pow2 1024 \<le> v then (if q < 0 then NInf else PInf)
              else Finite (if q < 0 then - v else v))"

fun fneg :: "pyfloat \<Rightarrow> pyfloat" where
  "fneg (Finite q) = Finite (- q)"
| "fneg PInf = NInf"
| "fneg NInf = PInf"
| "fneg NaN = NaN"

fun fabs :: "pyfloat \<Rightarrow> pyfloat" where
  "fabs (Finite q) = Finite \<bar>q\<bar>"
| "fabs PInf = PInf"
| "fabs NInf = PInf"
| "fabs NaN = NaN"

text \<open>Comparisons: every comparison with NaN is false.\<close>

fun flt :: "pyfloat \<Rightarrow> pyfloat \<Rightarrow> bool" where
  "flt NaN _ = False"
| "flt _ NaN = False"
| "flt (Finite a) (Finite b) = (a < b)"
| "flt _ NInf = False"
| "flt PInf _ = False"
| "flt NInf _ = True"
| "flt (Finite _) PInf = True"

fun feq :: "pyfloat \<Rightarrow> pyfloat \<Rightarrow> bool" where
  "feq (Finite a) (Finite b) = (a = b)"
| "feq PInf PInf = True"
| "feq NInf NInf = True"
| "feq _ _ = False"

definition fle :: "pyfloat \<Rightarrow> pyfloat \<Rightarrow> bool" where
  "fle a b = (flt a b \<or> feq a b)"

definition fgt :: "pyfloat \<Rightarrow> pyfloat \<Rightarrow> bool" where
  "fgt a b = flt b a"

text \<open>A C double used as a condition, \<^verbatim>\<open>if (x)\<close>: true unless \<open>x\<close> is zero (NaN is true).\<close>

definition nonzero :: "pyfloat \<Rightarrow> bool" where
  "nonzero x = (\<not> feq x (Finite 0))"

fun is_inf :: "pyfloat \<Rightarrow> bool" where
  "is_inf PInf = True"
| "is_inf NInf = True"
| "is_inf _ = False"

fun is_nan :: "pyfloat \<Rightarrow> bool" where
  "is_nan NaN = True"
| "is_nan _ = False"

fun fadd :: "pyfloat \<Rightarrow> pyfloat \<Rightarrow> pyfloat" where
  "fadd (Finite a) (Finite b) = round64 (a + b)"
| "fadd NaN _ = NaN"
| "fadd _ NaN = NaN"
| "fadd PInf NInf = NaN"
| "fadd NInf PInf = NaN"
| "fadd PInf _ = PInf"
| "fadd NInf _ = NInf"
| "fadd _ PInf = PInf"
| "fadd _ NInf = NInf"

definition fsub :: "pyfloat \<Rightarrow> pyfloat \<Rightarrow> pyfloat" where
  "fsub a b = fadd a (fneg b)"

text \<open>The sign of a product or quotient with an infinite operand.\<close>

definition signed_inf :: "bool \<Rightarrow> pyfloat" where
  "signed_inf negative = (if negative then NInf else PInf)"

fun fmul :: "pyfloat \<Rightarrow> pyfloat \<Rightarrow> pyfloat" where
  "fmul (Finite a) (Finite b) = round64 (a * b)"
| "fmul NaN _ = NaN"
| "fmul _ NaN = NaN"
| "fmul (Finite a) b = (if a = 0 then NaN else signed_inf ((a < 0) \<noteq> (b = NInf)))"
| "fmul a (Finite b) = (if b = 0 then NaN else signed_inf ((a = NInf) \<noteq> (b < 0)))"
| "fmul a b = signed_inf ((a = NInf) \<noteq> (b = NInf))"

text \<open>
  IEEE division. Python tests the divisor for zero before it divides, so the zero-divisor
  rows are never reached from \<^verbatim>\<open>app.py\<close>; they are those of a positive zero.
\<close>

fun fdiv :: "pyfloat \<Rightarrow> pyfloat \<Rightarrow> pyfloat" where
  "fdiv (Finite a) (Finite b) =
     (if b = 0 then (if a = 0 then NaN else signed_inf (a < 0)) else round64 (a / b))"
| "fdiv NaN _ = NaN"
| "fdiv _ NaN = NaN"
| "fdiv (Finite a) _ = Finite 0"
| "fdiv a (Finite b) = signed_inf ((a = NInf) \<noteq> (b < 0))"
| "fdiv _ _ = NaN"

fun ffloor :: "pyfloat \<Rightarrow> pyfloat" where
  "ffloor (Finite q) = Finite (of_int \<lfloor>q\<rfloor>)"
| "ffloor x = x"

definition trunc :: "real \<Rightarrow> int" where
  "trunc r = (if 0 \<le> r then \<lfloor>r\<rfloor> else \<lceil>r\<rceil>)"

text \<open>C \<^verbatim>\<open>fmod\<close>: the remainder has the sign of the dividend and is exact.\<close>

fun c_fmod :: "pyfloat \<Rightarrow> pyfloat \<Rightarrow> pyfloat" where
  "c_fmod (Finite x) (Finite y) =
     (if y = 0 then NaN else Finite (x - of_int (trunc (x / y)) * y))"
| "c_fmod (Finite x) PInf = Finite x"
| "c_fmod (Finite x) NInf = Finite x"
| "c_fmod _ _ = NaN"


section \<open>Exceptions and float operators of Python\<close>

text \<open>
  The \<^verbatim>\<open>ValueError\<close>s that \<^verbatim>\<open>safe_eval\<close> raises, one constructor per message of the source.
  The last one is not raised by \<^verbatim>\<open>safe_eval\<close> but by \<^verbatim>\<open>round\<close> on NaN.
\<close>

datatype value_error =
    EmptyExpression
  | SyntaxError
  | OnlyNumericConstants
  | UnsupportedUnaryOperator
  | UnsupportedBinaryOperator
  | ExponentTooLarge
  | BaseTooLarge
  | DivisionByZero
  | ResultOutOfRange
  | UnsupportedElement string
  | NaNToInteger

datatype exn = ValueError value_error | ZeroDivisionError | OverflowError | TypeError

text \<open>What a binary operator of Python returns on two floats: a float or a complex number.\<close>

datatype pyval = PyFloat pyfloat | PyComplex

text \<open>
  \<^verbatim>\<open>float(n)\<close> for an \<^verbatim>\<open>int\<close>: the nearest float, ties to even; \<^verbatim>\<open>OverflowError\<close> when \<open>n\<close>
  is beyond the range of floats.
\<close>

definition float_of_int :: "int \<Rightarrow> exn + pyfloat" where
  "float_of_int n =
     (case round64 (of_int n) of Finite q \<Rightarrow> Inr (Finite q) | _ \<Rightarrow> Inl OverflowError)"

text \<open>\<^verbatim>\<open>operator.truediv\<close> on floats (\<^verbatim>\<open>float_div\<close> of CPython).\<close>

definition float_div :: "pyfloat \<Rightarrow> pyfloat \<Rightarrow> exn + pyval" where
  "float_div v w =
     (if feq w (Finite 0) then Inl ZeroDivisionError else Inr (PyFloat (fdiv v w)))"

text \<open>\<^verbatim>\<open>operator.mod\<close> on floats (\<^verbatim>\<open>float_rem\<close>): the remainder takes the sign of the divisor.\<close>

definition float_rem :: "pyfloat \<Rightarrow> pyfloat \<Rightarrow> exn + pyval" where
  "float_rem v w =
     (if feq w (Finite 0) then Inl ZeroDivisionError
      else let m = c_fmod v w
           in Inr (PyFloat
                (if nonzero m
                 then (if flt w (Finite 0) \<noteq> flt m (Finite 0) then fadd m w else m)
                 else Finite 0)))"

text \<open>\<^verbatim>\<open>operator.floordiv\<close> on floats (\<^verbatim>\<open>float_floor_div\<close>, through \<^verbatim>\<open>_float_div_mod\<close>).\<close>

definition float_floor_div :: "pyfloat \<Rightarrow> pyfloat \<Rightarrow> exn + pyval" where
  "float_floor_div v w =
     (if feq w (Finite 0) then Inl ZeroDivisionError
      else let m = c_fmod v w;
               d = fdiv (fsub v m) w;
               d' = (if nonzero m \<and> flt w (Finite 0) \<noteq> flt m (Finite 0)
                     then fsub d (Finite 1) else d)
           in Inr (PyFloat
                (if nonzero d'
                 then (let fl = ffloor d'
                       in if fgt (fsub d' fl) (Finite (1 / 2)) then fadd fl (Finite 1) else fl)
                 else Finite 0)))"

text \<open>\<^verbatim>\<open>DOUBLE_IS_ODD_INTEGER\<close> of \<^verbatim>\<open>floatobject.c\<close>.\<close>

definition double_is_odd_integer :: "pyfloat \<Rightarrow> bool" where
  "double_is_odd_integer x = feq (c_fmod (fabs x) (Finite 2)) (Finite 1)"

text \<open>
  \<^verbatim>\<open>operator.pow\<close> on floats (\<^verbatim>\<open>float_pow\<close>). CPython sorts out the special cases itself and
  calls the C library's \<^verbatim>\<open>pow\<close> only on a finite positive base other than 1 and a finite
  nonzero exponent. The C standard does not fix the rounding of \<^verbatim>\<open>pow\<close>, so the library
  function is a parameter \<open>cpow\<close>: \<open>cpow x y\<close> is \<open>Some r\<close> when \<^verbatim>\<open>pow(x, y)\<close> returns the
  finite double \<open>r\<close>, and \<open>None\<close> when it overflows, which CPython turns into
  \<^verbatim>\<open>OverflowError\<close>. A negative base with a fractional exponent is handed to the complex
  power, which returns a complex number unless its modulus \<^verbatim>\<open>pow(|x|, y)\<close> overflows.
\<close>

type_synonym libm_pow = "real \<Rightarrow> real \<Rightarrow> real option"

definition float_pow :: "libm_pow \<Rightarrow> pyfloat \<Rightarrow> pyfloat \<Rightarrow> exn + pyval" where
  "float_pow cpow iv iw =
     (if feq iw (Finite 0) then Inr (PyFloat (Finite 1))
      else if is_nan iv then Inr (PyFloat iv)
      else if is_nan iw then Inr (PyFloat (if feq iv (Finite 1) then Finite 1 else iw))
      else if is_inf iw then
        (if feq (fabs iv) (Finite 1) then Inr (PyFloat (Finite 1))
         else if fgt iw (Finite 0) = fgt (fabs iv) (Finite 1) then Inr (PyFloat (fabs iw))
         else Inr (PyFloat (Finite 0)))
      else if is_inf iv then
        (if fgt iw (Finite 0)
         then Inr (PyFloat (if double_is_odd_integer iw then iv else fabs iv))
         else Inr (PyFloat (Finite 0)))
      else if feq iv (Finite 0) then
        (if flt iw (Finite 0) then Inl ZeroDivisionError else Inr (PyFloat (Finite 0)))
      else
        (case (fabs iv, iw) of
           (Finite x, Finite y) \<Rightarrow>
             if flt iv (Finite 0) \<and> \<not> feq iw (ffloor iw) then
               (case cpow x y of None \<Rightarrow> Inl OverflowError | Some _ \<Rightarrow> Inr PyComplex)
             else
               (let negate_result = (flt iv (Finite 0) \<and> double_is_odd_integer iw)
                in if x = 1 then Inr (PyFloat (Finite (if negate_result then - 1 else 1)))
                   else case cpow x y of
                          None \<Rightarrow> Inl OverflowError
                        | Some r \<Rightarrow> Inr (PyFloat (Finite (if negate_result then - r else r))))
         | _ \<Rightarrow> Inr (PyFloat NaN)))"

section \<open>The syntax tree and the evaluator\<close>

text \<open>
  The nodes of Python's \<^verbatim>\<open>ast\<close> module that \<^verbatim>\<open>_eval\<close> tells apart (Python 3.8 to 3.13, where
  every literal is an \<^verbatim>\<open>ast.Constant\<close>). \<open>Other n\<close> is a node of any other class, \<open>n\<close> its
  class name; \<open>COther\<close> is a constant that is neither \<^verbatim>\<open>int\<close>, \<^verbatim>\<open>float\<close> nor \<^verbatim>\<open>bool\<close>
  (a string, a complex number, \<^verbatim>\<open>None\<close>, ...). The constructors \<open>Pow_op\<close> and \<open>Not_op\<close>
  are \<^verbatim>\<open>ast.Pow\<close> and \<^verbatim>\<open>ast.Not\<close>.
\<close>

datatype pyconst = CInt int | CFloat pyfloat | CBool bool | COther

datatype unaryop = UAdd | USub | Not_op | Invert

datatype operator =
    Add | Sub | Mult | Div | Mod | FloorDiv | Pow_op
  | MatMult | LShift | RShift | BitOr | BitXor | BitAnd

datatype node =
    Expression node
  | Constant pyconst
  | UnaryOp unaryop node
  | BinOp node operator node
  | Other string

definition allowed_binops ::
    "libm_pow \<Rightarrow> operator \<Rightarrow> (pyfloat \<Rightarrow> pyfloat \<Rightarrow> exn + pyval) option" where
  "allowed_binops cpow op =
     (case op of
        Add \<Rightarrow> Some (\<lambda>a b. Inr (PyFloat (fadd a b)))
      | Sub \<Rightarrow> Some (\<lambda>a b. Inr (PyFloat (fsub a b)))
      | Mult \<Rightarrow> Some (\<lambda>a b. Inr (PyFloat (fmul a b)))
      | Div \<Rightarrow> Some float_div
      | Mod \<Rightarrow> Some float_rem
      | FloorDiv \<Rightarrow> Some float_floor_div
      | Pow_op \<Rightarrow> Some (float_pow cpow)
      | _ \<Rightarrow> None)"

definition allowed_unaryops :: "unaryop \<Rightarrow> (pyfloat \<Rightarrow> pyfloat) option" where
  "allowed_unaryops op =
     (case op of UAdd \<Rightarrow> Some (\<lambda>x. x) | USub \<Rightarrow> Some fneg | _ \<Rightarrow> None)"

definition max_abs_result :: pyfloat where
  "max_abs_result = Finite 1000000000000"

definition max_abs_base_for_pow :: pyfloat where
  "max_abs_base_for_pow = Finite 1000000"

definition max_abs_exponent :: pyfloat where
  "max_abs_exponent = Finite 10"

text \<open>\<^verbatim>\<open>float(node.value)\<close> under the test \<^verbatim>\<open>isinstance(node.value, (int, float))\<close>.\<close>

definition eval_constant :: "pyconst \<Rightarrow> exn + pyfloat" where
  "eval_constant c =
     (case c of
        CInt n \<Rightarrow> float_of_int n
      | CFloat x \<Rightarrow> Inr x
      | CBool b \<Rightarrow> Inr (Finite (if b then 1 else 0))
      | COther \<Rightarrow> Inl (ValueError OnlyNumericConstants))"

text \<open>
  The last three lines of the \<^verbatim>\<open>BinOp\<close> branch: \<^verbatim>\<open>math.isfinite\<close> raises \<^verbatim>\<open>TypeError\<close> on
  a complex number.
\<close>

definition check_result :: "pyval \<Rightarrow> exn + pyfloat" where
  "check_result result =
     (case result of
        PyComplex \<Rightarrow> Inl TypeError
      | PyFloat x \<Rightarrow>
          if \<not> is_inf x \<and> \<not> is_nan x \<and> fle (fabs x) max_abs_result then Inr x
          else Inl (ValueError ResultOutOfRange))"

text \<open>
  The operator is applied inside \<^verbatim>\<open>try\<close>, which turns \<^verbatim>\<open>ZeroDivisionError\<close>, and nothing
  else, into a \<^verbatim>\<open>ValueError\<close>.
\<close>

definition apply_binop ::
    "(pyfloat \<Rightarrow> pyfloat \<Rightarrow> exn + pyval) \<Rightarrow> pyfloat \<Rightarrow> pyfloat \<Rightarrow> exn + pyfloat" where
  "apply_binop f left right =
     (case f left right of
        Inl ZeroDivisionError \<Rightarrow> Inl (ValueError DivisionByZero)
      | Inl e \<Rightarrow> Inl e
      | Inr result \<Rightarrow> check_result result)"

text \<open>
  \<^verbatim>\<open>_eval\<close>. The branch for \<^verbatim>\<open>ast.Num\<close> is omitted: from Python 3.8 on an instance of
  \<^verbatim>\<open>ast.Num\<close> is an \<^verbatim>\<open>ast.Constant\<close>, which the branch before it has taken.
\<close>

fun eval_node :: "libm_pow \<Rightarrow> node \<Rightarrow> exn + pyfloat" where
  "eval_node cpow (Expression body) = eval_node cpow body"
| "eval_node cpow (Constant c) = eval_constant c"
| "eval_node cpow (UnaryOp op operand) =
     (case allowed_unaryops op of
        Some f \<Rightarrow> (case eval_node cpow operand of Inl e \<Rightarrow> Inl e | Inr x \<Rightarrow> Inr (f x))
      | None \<Rightarrow> Inl (ValueError UnsupportedUnaryOperator))"
| "eval_node cpow (BinOp l op r) =
     (case eval_node cpow l of
        Inl e \<Rightarrow> Inl e
      | Inr left \<Rightarrow>
          (case eval_node cpow r of
             Inl e \<Rightarrow> Inl e
           | Inr right \<Rightarrow>
               (case allowed_binops cpow op of
                  None \<Rightarrow> Inl (ValueError UnsupportedBinaryOperator)
                | Some f \<Rightarrow>
                    if op = Pow_op \<and> fgt (fabs right) max_abs_exponent
                    then Inl (ValueError ExponentTooLarge)
                    else if op = Pow_op \<and> fgt (fabs left) max_abs_base_for_pow
                    then Inl (ValueError BaseTooLarge)
                    else apply_binop f left right)))"
| "eval_node cpow (Other n) = Inl (ValueError (UnsupportedElement n))"


section \<open>The runtime and \<^verbatim>\<open>safe_eval\<close>\<close>

text \<open>
  Three functions that \<^verbatim>\<open>app.py\<close> calls are not part of it: \<^verbatim>\<open>ast.parse(expr, mode="eval")\<close>
  (\<open>None\<close> when it raises \<^verbatim>\<open>SyntaxError\<close>), the C library's \<^verbatim>\<open>pow\<close>, and the conversion
  \<^verbatim>\<open>float(s)\<close> of a string (\<open>None\<close> when it raises). The program is modelled over a
  runtime that provides them; the general theorems below hold for every runtime.
\<close>

record runtime =
  ast_parse :: "string \<Rightarrow> node option"
  c_pow :: libm_pow
  float_of_str :: "string \<Rightarrow> pyfloat option"

text \<open>\<^verbatim>\<open>str.isspace\<close> on the ASCII characters, and \<^verbatim>\<open>str.strip\<close>.\<close>

definition is_space :: "char \<Rightarrow> bool" where
  "is_space c = (c \<in> set [CHR '' '', CHR 0x09, CHR 0x0A, CHR 0x0B, CHR 0x0C, CHR 0x0D,
                            CHR 0x1C, CHR 0x1D, CHR 0x1E, CHR 0x1F])"

definition strip :: "string \<Rightarrow> string" where
  "strip s = rev (dropWhile is_space (rev (dropWhile is_space s)))"

definition safe_eval :: "runtime \<Rightarrow> string \<Rightarrow> exn + pyfloat" where
  "safe_eval rt expr =
     (if expr = [] \<or> strip expr = [] then Inl (ValueError EmptyExpression)
      else case ast_parse rt expr of
             None \<Rightarrow> Inl (ValueError SyntaxError)
           | Some parsed \<Rightarrow> eval_node (c_pow rt) parsed)"

section \<open>A reference runtime\<close>

subsection \<open>Number literals\<close>

definition is_digit :: "char \<Rightarrow> bool" where
  "is_digit c = (c \<in> set ''0123456789'')"

definition is_alpha :: "char \<Rightarrow> bool" where
  "is_alpha c = (c \<in> set ''abcdefghijklmnopqrstuvwxyzABCDEFGHIJKLMNOPQRSTUVWXYZ_'')"

text \<open>The value of a digit: its position in the string of the ten digits.\<close>

definition digit_val :: "char \<Rightarrow> nat" where
  "digit_val c = length (takeWhile (\<lambda>d. d \<noteq> c) ''0123456789'')"

definition nat_of_digits :: "string \<Rightarrow> nat" where
  "nat_of_digits s = foldl (\<lambda>n c. 10 * n + digit_val c) 0 s"

definition pow10 :: "int \<Rightarrow> real" where
  "pow10 e = (if 0 \<le> e then 10 ^ nat e else 1 / 10 ^ nat (- e))"

text \<open>
  The three pieces of the decimal literal at the head of a string, as Python's tokenizer
  delimits it: the integer part, the fraction with its point, the exponent with its marker.
  Each may be empty.
\<close>

definition scan_number :: "string \<Rightarrow> string \<times> string \<times> string" where
  "scan_number s =
     (let ip = takeWhile is_digit s;
          r1 = drop (length ip) s;
          fp = (case r1 of [] \<Rightarrow> []
                | c # t \<Rightarrow> if c = CHR ''.'' then c # takeWhile is_digit t else []);
          r2 = drop (length fp) r1;
          ep = (case r2 of [] \<Rightarrow> []
                | c # t \<Rightarrow>
                    if c = CHR ''e'' \<or> c = CHR ''E'' then
                      (let sg = (case t of [] \<Rightarrow> []
                                 | d # _ \<Rightarrow> if d = CHR ''+'' \<or> d = CHR ''-'' then [d] else []);
                           ds = takeWhile is_digit (drop (length sg) t)
                       in if ds = [] then [] else c # sg @ ds)
                    else [])
      in (ip, fp, ep))"

definition exponent_val :: "string \<Rightarrow> int" where
  "exponent_val ep =
     (case ep of
        [] \<Rightarrow> 0
      | _ # t \<Rightarrow>
          (case t of
             [] \<Rightarrow> 0
           | d # u \<Rightarrow>
               if d = CHR ''-'' then - int (nat_of_digits u)
               else if d = CHR ''+'' then int (nat_of_digits u)
               else int (nat_of_digits t)))"

text \<open>The exact value of a decimal numeral given by its three pieces.\<close>

definition decimal_val :: "string \<times> string \<times> string \<Rightarrow> real" where
  "decimal_val parts =
     (case parts of (ip, fp, ep) \<Rightarrow>
        of_nat (nat_of_digits (ip @ tl fp)) * pow10 (exponent_val ep - int (length (tl fp))))"

text \<open>
  The constant a literal denotes: an \<^verbatim>\<open>int\<close> without point and exponent (a nonzero one must
  not start with \<open>0\<close>), otherwise the float nearest to the decimal value.
\<close>

definition number_const :: "string \<times> string \<times> string \<Rightarrow> pyconst option" where
  "number_const parts =
     (case parts of (ip, fp, ep) \<Rightarrow>
        if ip = [] \<and> length fp \<le> 1 then None
        else if fp = [] \<and> ep = [] then
          (if 1 < length ip \<and> hd ip = CHR ''0'' \<and> nat_of_digits ip \<noteq> 0 then None
           else Some (CInt (int (nat_of_digits ip))))
        else Some (CFloat (round64 (decimal_val parts))))"

subsection \<open>Tokens\<close>

datatype token =
    TConst pyconst | TPlus | TMinus | TStar | TSlash | TDoubleSlash | TPercent
  | TDoubleStar | TLPar | TRPar

text \<open>
  The token at the head of a string that starts with neither a blank nor a tab, and the
  number of characters it takes; \<open>None\<close> where the tokenizer fails or the token is not
  one of the fragment.
\<close>

definition next_token :: "string \<Rightarrow> (token \<times> nat) option" where
  "next_token s =
     (case s of
        [] \<Rightarrow> None
      | c # cs \<Rightarrow>
          if is_digit c \<or> c = CHR ''.'' then
            (case scan_number s of (ip, fp, ep) \<Rightarrow>
               (let n = length ip + length fp + length ep; rest = drop n s
                in case number_const (ip, fp, ep) of
                     None \<Rightarrow> None
                   | Some k \<Rightarrow>
                       if rest \<noteq> [] \<and> (is_alpha (hd rest) \<or> is_digit (hd rest)) then None
                       else Some (TConst k, n)))
          else if is_alpha c then
            (let word = takeWhile (\<lambda>d. is_alpha d \<or> is_digit d) s
             in if word = ''True'' then Some (TConst (CBool True), 4)
                else if word = ''False'' then Some (TConst (CBool False), 5)
                else None)
          else if c = CHR ''+'' then Some (TPlus, 1)
          else if c = CHR ''-'' then Some (TMinus, 1)
          else if c = CHR ''%'' then Some (TPercent, 1)
          else if c = CHR ''('' then Some (TLPar, 1)
          else if c = CHR '')'' then Some (TRPar, 1)
          else if c = CHR ''*'' then
            (if cs \<noteq> [] \<and> hd cs = CHR ''*'' then Some (TDoubleStar, 2) else Some (TStar, 1))
          else if c = CHR ''/'' then
            (if cs \<noteq> [] \<and> hd cs = CHR ''/'' then Some (TDoubleSlash, 2) else Some (TSlash, 1))
          else None)"

fun tokenize :: "string \<Rightarrow> token list option" where
  "tokenize [] = Some []"
| "tokenize (c # cs) =
     (if c = CHR '' '' \<or> c = CHR 0x09 then tokenize cs
      else case next_token (c # cs) of
             None \<Rightarrow> None
           | Some (t, n) \<Rightarrow> map_option ((#) t) (tokenize (drop (n - 1) cs)))"

subsection \<open>The grammar\<close>

definition sum_op :: "token \<Rightarrow> operator option" where
  "sum_op t = (case t of TPlus \<Rightarrow> Some Add | TMinus \<Rightarrow> Some Sub | _ \<Rightarrow> None)"

definition term_op :: "token \<Rightarrow> operator option" where
  "term_op t =
     (case t of TStar \<Rightarrow> Some Mult | TSlash \<Rightarrow> Some Div | TDoubleSlash \<Rightarrow> Some FloorDiv
      | TPercent \<Rightarrow> Some Mod | _ \<Rightarrow> None)"

text \<open>
  Recursive descent along the rules \<^verbatim>\<open>sum\<close>, \<^verbatim>\<open>term\<close>, \<^verbatim>\<open>factor\<close>, \<^verbatim>\<open>power\<close> and \<^verbatim>\<open>atom\<close> of
  Python's grammar; \<open>RSumRest l\<close> and \<open>RTermRest l\<close> are the repetitions
  \<^verbatim>\<open>(('+'|'-') term)*\<close> and \<^verbatim>\<open>(('*'|'/'|'//'|'%') factor)*\<close> with the left operand \<open>l\<close> read
  so far. The result is the tree and the tokens left over. The first argument bounds the
  depth of the recursion.
\<close>

datatype rule = RSum | RSumRest node | RTerm | RTermRest node | RFactor | RPower | RAtom

fun parse :: "nat \<Rightarrow> rule \<Rightarrow> token list \<Rightarrow> (node \<times> token list) option" where
  "parse n g ts =
     (if n = 0 then None
      else case g of
        RSum \<Rightarrow>
          (case parse (n - 1) RTerm ts of None \<Rightarrow> None | Some (l, r) \<Rightarrow> parse (n - 1) (RSumRest l) r)
      | RSumRest l \<Rightarrow>
          (case ts of
             [] \<Rightarrow> Some (l, [])
           | t # r \<Rightarrow>
               (case sum_op t of
                  None \<Rightarrow> Some (l, ts)
                | Some op \<Rightarrow>
                    (case parse (n - 1) RTerm r of
                       None \<Rightarrow> None
                     | Some (x, r') \<Rightarrow> parse (n - 1) (RSumRest (BinOp l op x)) r')))
      | RTerm \<Rightarrow>
          (case parse (n - 1) RFactor ts of None \<Rightarrow> None | Some (l, r) \<Rightarrow> parse (n - 1) (RTermRest l) r)
      | RTermRest l \<Rightarrow>
          (case ts of
             [] \<Rightarrow> Some (l, [])
           | t # r \<Rightarrow>
               (case term_op t of
                  None \<Rightarrow> Some (l, ts)
                | Some op \<Rightarrow>
                    (case parse (n - 1) RFactor r of
                       None \<Rightarrow> None
                     | Some (x, r') \<Rightarrow> parse (n - 1) (RTermRest (BinOp l op x)) r')))
      | RFactor \<Rightarrow>
          (case ts of
             [] \<Rightarrow> None
           | t # r \<Rightarrow>
               if t = TPlus
               then map_option (\<lambda>(x, r'). (UnaryOp UAdd x, r')) (parse (n - 1) RFactor r)
               else if t = TMinus
               then map_option (\<lambda>(x, r'). (UnaryOp USub x, r')) (parse (n - 1) RFactor r)
               else parse (n - 1) RPower ts)
      | RPower \<Rightarrow>
          (case parse (n - 1) RAtom ts of
             None \<Rightarrow> None
           | Some (b, r) \<Rightarrow>
               if r \<noteq> [] \<and> hd r = TDoubleStar
               then map_option (\<lambda>(x, r'). (BinOp b Pow_op x, r')) (parse (n - 1) RFactor (tl r))
               else Some (b, r))
      | RAtom \<Rightarrow>
          (case ts of
             [] \<Rightarrow> None
           | t # r \<Rightarrow>
               (case t of
                  TConst k \<Rightarrow> Some (Constant k, r)
                | TLPar \<Rightarrow>
                    (case parse (n - 1) RSum r of
                       None \<Rightarrow> None
                     | Some (x, r') \<Rightarrow>
                         if r' \<noteq> [] \<and> hd r' = TRPar then Some (x, tl r') else None)
                | _ \<Rightarrow> None)))"

declare parse.simps [simp del]

text \<open>
  \<^verbatim>\<open>ast.parse(expr, mode="eval")\<close> on the arithmetic fragment of Python: decimal literals,
  \<^verbatim>\<open>True\<close>, \<^verbatim>\<open>False\<close>, the operators \<^verbatim>\<open>+ - * / // % **\<close>, parentheses, blanks and tabs. Leading
  white space is an \<^verbatim>\<open>IndentationError\<close>, a \<^verbatim>\<open>SyntaxError\<close>. An input with any other token
  (a name, a call, a string, a digit separator, ...) is outside the fragment and is
  reported as a syntax error here; the statements below about \<open>py_parse\<close> are all about
  inputs of the fragment.
\<close>

definition py_parse :: "string \<Rightarrow> node option" where
  "py_parse s =
     (if s = [] \<or> is_space (hd s) then None
      else case tokenize s of
             None \<Rightarrow> None
           | Some ts \<Rightarrow>
               (case parse (6 * length ts + 6) RSum ts of
                  Some (x, []) \<Rightarrow> Some (Expression x)
                | _ \<Rightarrow> None))"


subsection \<open>The C library and \<^verbatim>\<open>float\<close> of a string\<close>

text \<open>
  A C library whose \<^verbatim>\<open>pow\<close> is correctly rounded. Any library returns an exactly
  representable power exactly, as this one does.
\<close>

definition correctly_rounded_pow :: libm_pow where
  "correctly_rounded_pow x y = (case round64 (x powr y) of Finite r \<Rightarrow> Some r | _ \<Rightarrow> None)"

text \<open>
  \<^verbatim>\<open>float(s)\<close> on a decimal numeral with an optional sign, surrounded by white space. The
  other spellings that Python accepts (\<^verbatim>\<open>inf\<close>, \<^verbatim>\<open>nan\<close>, digit separators) are not covered.
\<close>

definition py_float :: "string \<Rightarrow> pyfloat option" where
  "py_float s =
     (let t = strip s;
          negative = (t \<noteq> [] \<and> hd t = CHR ''-'');
          u = (if t \<noteq> [] \<and> (hd t = CHR ''-'' \<or> hd t = CHR ''+'') then tl t else t)
      in case scan_number u of (ip, fp, ep) \<Rightarrow>
           if (ip = [] \<and> length fp \<le> 1) \<or> length ip + length fp + length ep \<noteq> length u
           then None
           else Some (let x = round64 (decimal_val (ip, fp, ep))
                      in if negative then fneg x else x))"

definition cpython :: runtime where
  "cpython = \<lparr>ast_parse = py_parse, c_pow = correctly_rounded_pow, float_of_str = py_float\<rparr>"

section \<open>The session and its callbacks\<close>

text \<open>
  The feedback messages of \<^verbatim>\<open>app.py\<close>. A message that the source formats from a value
  carries that value: the error of an invalid equation, the integer or the float shown as
  the correct answer.
\<close>

datatype feedback =
    NoFeedback
  | EnterEquationFirst
  | InvalidEquation value_error
  | EquationAccepted
  | TypeAnswerFirst
  | CouldNotParse
  | NoValidEquation
  | Correct
  | CorrectWithinTolerance
  | IncorrectInt int
  | IncorrectFloat pyfloat

record session =
  correct_answer :: "pyfloat option"
  eq_text :: string
  feedback :: feedback
  eq_input :: string
  user_answer_input :: string

text \<open>
  A callback returns the session as it leaves it, and the exception that escapes from it,
  if one does.
\<close>

definition on_set_equation :: "runtime \<Rightarrow> session \<Rightarrow> exn option \<times> session" where
  "on_set_equation rt st =
     (let expr = strip (eq_input st);
          st1 = st\<lparr>feedback := NoFeedback\<rparr>
      in if expr = [] then (None, st1\<lparr>feedback := EnterEquationFirst\<rparr>)
         else case safe_eval rt expr of
                Inl (ValueError e) \<Rightarrow>
                  (None, st1\<lparr>correct_answer := None, eq_text := [],
                              feedback := InvalidEquation e\<rparr>)
              | Inl ex \<Rightarrow> (Some ex, st1)
              | Inr result \<Rightarrow>
                  (None, st1\<lparr>correct_answer := Some result, eq_text := expr,
                              user_answer_input := [], feedback := EquationAccepted\<rparr>))"

text \<open>\<^verbatim>\<open>round(x)\<close> of a float: the nearest integer, ties to even.\<close>

definition py_round :: "pyfloat \<Rightarrow> exn + int" where
  "py_round x =
     (case x of
        Finite q \<Rightarrow> Inr (round_half_even q)
      | NaN \<Rightarrow> Inl (ValueError NaNToInteger)
      | _ \<Rightarrow> Inl OverflowError)"

text \<open>\<^verbatim>\<open>math.isclose(a, b, rel_tol=r, abs_tol=t)\<close>, as \<^verbatim>\<open>mathmodule.c\<close> computes it.\<close>

definition isclose :: "pyfloat \<Rightarrow> pyfloat \<Rightarrow> pyfloat \<Rightarrow> pyfloat \<Rightarrow> bool" where
  "isclose a b rel_tol abs_tol =
     (if feq a b then True
      else if is_inf a \<or> is_inf b then False
      else let diff = fabs (fsub b a)
           in fle diff (fabs (fmul rel_tol b)) \<or> fle diff (fabs (fmul rel_tol a))
              \<or> fle diff abs_tol)"

text \<open>The float literals \<^verbatim>\<open>1e-9\<close> and \<^verbatim>\<open>1e-12\<close>.\<close>

definition tol9 :: pyfloat where
  "tol9 = round64 (1 / 10 ^ 9)"

definition tol12 :: pyfloat where
  "tol12 = round64 (1 / 10 ^ 12)"

text \<open>
  The integer-friendly comparison at the end of \<^verbatim>\<open>on_check_answer\<close>: the feedback for the
  locked result \<open>correct\<close> and the user's value. \<^verbatim>\<open>math.isclose\<close> converts the integer
  \<^verbatim>\<open>round(correct)\<close> to a float.
\<close>

definition compare :: "pyfloat \<Rightarrow> pyfloat \<Rightarrow> exn + feedback" where
  "compare correct user_val =
     (case py_round correct of
        Inl ex \<Rightarrow> Inl ex
      | Inr n \<Rightarrow>
          (case float_of_int n of
             Inl ex \<Rightarrow> Inl ex
           | Inr rounded \<Rightarrow>
               if isclose correct rounded tol12 tol12 then
                 (if isclose user_val rounded tol9 tol9 then Inr Correct
                  else Inr (IncorrectInt n))
               else
                 (if isclose user_val correct tol9 tol9 then Inr CorrectWithinTolerance
                  else Inr (IncorrectFloat correct))))"

definition check_against :: "session \<Rightarrow> pyfloat \<Rightarrow> exn option \<times> session" where
  "check_against st user_val =
     (case correct_answer st of
        None \<Rightarrow> (None, st\<lparr>feedback := NoValidEquation\<rparr>)
      | Some correct \<Rightarrow>
          (case compare correct user_val of
             Inl ex \<Rightarrow> (Some ex, st)
           | Inr fb \<Rightarrow> (None, st\<lparr>feedback := fb\<rparr>)))"

definition on_check_answer :: "runtime \<Rightarrow> session \<Rightarrow> exn option \<times> session" where
  "on_check_answer rt st =
     (let user_ans = user_answer_input st
      in if strip user_ans = [] then (None, st\<lparr>feedback := TypeAnswerFirst\<rparr>)
         else case safe_eval rt user_ans of
                Inr user_val \<Rightarrow> check_against st user_val
              | Inl (ValueError e) \<Rightarrow>
                  (case float_of_str rt user_ans of
                     None \<Rightarrow> (None, st\<lparr>feedback := CouldNotParse\<rparr>)
                   | Some user_val \<Rightarrow> check_against st user_val)
              | Inl ex \<Rightarrow> (Some ex, st))"

section \<open>The random problem\<close>

definition digit_char :: "nat \<Rightarrow> char" where
  "digit_char d = ''0123456789'' ! d"

text \<open>\<^verbatim>\<open>str(n)\<close> of a natural number.\<close>

fun str_nat :: "nat \<Rightarrow> string" where
  "str_nat n = (if n < 10 then [digit_char n] else str_nat (n div 10) @ [digit_char (n mod 10)])"

declare str_nat.simps [simp del]

text \<open>
  \<^verbatim>\<open>generate_easy_problem\<close>, as a function of the three random draws: the operator chosen
  from \<^verbatim>\<open>+ - * /\<close> and the two numbers from \<^verbatim>\<open>randint(1, 12)\<close>. For a division the numbers
  are the divisor and the quotient.
\<close>

definition generate_easy_problem :: "char \<Rightarrow> nat \<Rightarrow> nat \<Rightarrow> string" where
  "generate_easy_problem op a b =
     (if op = CHR ''/'' then str_nat (a * b) @ ''/'' @ str_nat a
      else str_nat a @ [op] @ str_nat b)"


section \<open>Evaluating the model\<close>

lemma bit_length_0 [simp]: "bit_length 0 = 0"
  by (simp add: bit_length.simps)

lemma bit_length_Suc_0 [simp]: "bit_length (Suc 0) = Suc 0"
  by (simp add: bit_length.simps)

lemma bit_length_1 [simp]: "bit_length 1 = 1"
  by (simp add: bit_length.simps)

lemma bit_length_Bit0 [simp]: "bit_length (numeral (Num.Bit0 k)) = Suc (bit_length (numeral k))"
  by (subst bit_length.simps) simp

lemma bit_length_Bit1 [simp]: "bit_length (numeral (Num.Bit1 k)) = Suc (bit_length (numeral k))"
  by (subst bit_length.simps) simp

text \<open>The equations that evaluate the model on a concrete input.\<close>

lemmas float_eval =
  round64_def round_half_even_def ilog2_def pow2_def Let_def fle_def fgt_def fsub_def
  nonzero_def trunc_def signed_inf_def

lemmas parse_eval =
  next_token_def scan_number_def number_const_def decimal_val_def exponent_val_def
  nat_of_digits_def digit_val_def is_digit_def is_alpha_def pow10_def is_space_def strip_def
  py_parse_def sum_op_def term_op_def parse.simps

lemmas node_eval =
  safe_eval_def cpython_def eval_constant_def float_of_int_def allowed_binops_def
  allowed_unaryops_def apply_binop_def check_result_def max_abs_result_def
  max_abs_base_for_pow_def max_abs_exponent_def float_div_def float_rem_def
  float_floor_div_def float_pow_def double_is_odd_integer_def correctly_rounded_pow_def

lemma tol9_val: "tol9 = Finite (4835703278458517 / 4835703278458516698824704)"
  by (simp add: tol9_def float_eval cong: let_weak_cong)

lemma tol12_val: "tol12 = Finite (4951760157141521 / 4951760157141521099596496896)"
  by (simp add: tol12_def float_eval cong: let_weak_cong)

section \<open>The round-trip examples\<close>

text \<open>
  Claim C6. On the examples of the specification \<^verbatim>\<open>safe_eval\<close> returns exactly the reference
  results, as floats: \<^verbatim>\<open>2+2\<close> is \<open>4.0\<close>, \<^verbatim>\<open>3*(4-1)/2\<close> is \<open>4.5\<close>, \<^verbatim>\<open>5**2\<close> is \<open>25.0\<close>,
  \<^verbatim>\<open>10//3\<close> is \<open>3.0\<close> and \<^verbatim>\<open>7 % 3\<close> is \<open>1.0\<close>.
\<close>

theorem safe_eval_round_trip:
  "safe_eval cpython ''2+2'' = Inr (Finite 4)
   \<and> safe_eval cpython ''3*(4-1)/2'' = Inr (Finite (9 / 2))
   \<and> safe_eval cpython ''5**2'' = Inr (Finite 25)
   \<and> safe_eval cpython ''10//3'' = Inr (Finite 3)
   \<and> safe_eval cpython ''7 % 3'' = Inr (Finite 1)"
proof -
  have "safe_eval cpython ''2+2'' = Inr (Finite 4)"
    by (simp add: parse_eval node_eval float_eval cong: let_weak_cong)
  moreover have "safe_eval cpython ''3*(4-1)/2'' = Inr (Finite (9 / 2))"
    by (simp add: parse_eval node_eval float_eval cong: let_weak_cong)
  moreover have "safe_eval cpython ''5**2'' = Inr (Finite 25)"
    by (simp add: parse_eval node_eval float_eval cong: let_weak_cong)
  moreover have "safe_eval cpython ''10//3'' = Inr (Finite 3)"
    by (simp add: parse_eval node_eval float_eval cong: let_weak_cong)
  moreover have "safe_eval cpython ''7 % 3'' = Inr (Finite 1)"
    by (simp add: parse_eval node_eval float_eval cong: let_weak_cong)
  ultimately show ?thesis
    by (intro conjI)
qed


section \<open>Boolean literals\<close>

text \<open>
  Claim C10. \<^verbatim>\<open>safe_eval\<close> accepts the literals \<^verbatim>\<open>True\<close> and \<^verbatim>\<open>False\<close> as the numbers \<open>1.0\<close>
  and \<open>0.0\<close>, also as operands (\<^verbatim>\<open>True+1\<close> is \<open>2.0\<close>): a constant node that holds a
  \<^verbatim>\<open>bool\<close> passes the test for \<^verbatim>\<open>int\<close> and \<^verbatim>\<open>float\<close>.
\<close>

theorem safe_eval_bool_literals:
  "safe_eval cpython ''True'' = Inr (Finite 1)
   \<and> safe_eval cpython ''False'' = Inr (Finite 0)
   \<and> safe_eval cpython ''True+1'' = Inr (Finite 2)
   \<and> eval_node cpow (Constant (CBool b)) = Inr (Finite (if b then 1 else 0))"
proof -
  have "safe_eval cpython ''True'' = Inr (Finite 1)"
    by (simp add: parse_eval node_eval float_eval cong: let_weak_cong)
  moreover have "safe_eval cpython ''False'' = Inr (Finite 0)"
    by (simp add: parse_eval node_eval float_eval cong: let_weak_cong)
  moreover have "safe_eval cpython ''True+1'' = Inr (Finite 2)"
    by (simp add: parse_eval node_eval float_eval cong: let_weak_cong)
  moreover have "eval_node cpow (Constant (CBool b)) = Inr (Finite (if b then 1 else 0))"
    by (simp add: eval_constant_def)
  ultimately show ?thesis
    by (intro conjI)
qed

section \<open>Results that escape the bounds\<close>

text \<open>
  Claim C1 says that every value \<^verbatim>\<open>safe_eval\<close> returns is finite and at most \<open>10\<^sup>1\<^sup>2\<close> in
  absolute value, literals and unary nodes included. The source checks the bound in the
  \<^verbatim>\<open>BinOp\<close> branch only: the literal \<^verbatim>\<open>1e13\<close> is returned as it is, and so is its negation,
  and a constant node that holds an infinity evaluates to that infinity.
\<close>

theorem safe_eval_literal_out_of_range:
  "safe_eval cpython ''1e13'' = Inr (Finite 10000000000000)
   \<and> safe_eval cpython ''-1e13'' = Inr (Finite (- 10000000000000))
   \<and> \<not> fle (fabs (Finite 10000000000000)) max_abs_result
   \<and> eval_node cpow (Constant (CFloat PInf)) = Inr PInf"
proof -
  have "safe_eval cpython ''1e13'' = Inr (Finite 10000000000000)"
    by (simp add: parse_eval node_eval float_eval cong: let_weak_cong)
  moreover have "safe_eval cpython ''-1e13'' = Inr (Finite (- 10000000000000))"
    by (simp add: parse_eval node_eval float_eval cong: let_weak_cong)
  moreover have "\<not> fle (fabs (Finite 10000000000000)) max_abs_result"
    by (simp add: fle_def max_abs_result_def)
  moreover have "eval_node cpow (Constant (CFloat PInf)) = Inr PInf"
    by (simp add: eval_constant_def)
  ultimately show ?thesis
    by (intro conjI)
qed

section \<open>Exceptions that escape \<^verbatim>\<open>safe_eval\<close>\<close>

text \<open>
  Claim C2 says that \<^verbatim>\<open>safe_eval\<close> fails with a \<^verbatim>\<open>ValueError\<close> or not at all. A negative base
  with a fractional exponent gives a complex number, on which \<^verbatim>\<open>math.isfinite\<close> raises
  \<^verbatim>\<open>TypeError\<close>; an integer literal beyond the range of floats makes \<^verbatim>\<open>float\<close> raise
  \<^verbatim>\<open>OverflowError\<close>. Neither is caught.
\<close>

theorem safe_eval_uncaught_exception:
  "safe_eval cpython ''(-1)**0.5'' = Inl TypeError
   \<and> eval_node cpow (Constant (CInt (10 ^ 400))) = Inl OverflowError"
proof -
  have "safe_eval cpython ''(-1)**0.5'' = Inl TypeError"
    by (simp add: parse_eval node_eval float_eval cong: let_weak_cong)
  moreover have "eval_node cpow (Constant (CInt (10 ^ 400))) = Inl OverflowError"
    by (simp add: node_eval float_eval cong: let_weak_cong)
  ultimately show ?thesis
    by (intro conjI)
qed


section \<open>The errors of a binary node\<close>

lemma float_pow_not_ValueError: "float_pow cpow a b \<noteq> Inl (ValueError e)"
  by (cases a; cases b)
     (auto simp: float_pow_def Let_def split: option.splits if_splits)

lemma float_pow_ZeroDivisionError:
  "(float_pow cpow a b = Inl ZeroDivisionError)
   = (feq a (Finite 0) \<and> flt b (Finite 0) \<and> \<not> is_inf b)"
  by (cases a; cases b)
     (auto simp: float_pow_def Let_def fgt_def split: option.splits if_splits)

lemma float_div_Inl: "(float_div a b = Inl e) = (e = ZeroDivisionError \<and> feq b (Finite 0))"
  by (auto simp: float_div_def)

lemma float_rem_Inl: "(float_rem a b = Inl e) = (e = ZeroDivisionError \<and> feq b (Finite 0))"
  by (auto simp: float_rem_def Let_def)

lemma float_floor_div_Inl:
  "(float_floor_div a b = Inl e) = (e = ZeroDivisionError \<and> feq b (Finite 0))"
  by (auto simp: float_floor_div_def Let_def)

lemma check_result_ValueError: "check_result v = Inl (ValueError e) \<Longrightarrow> e = ResultOutOfRange"
  by (auto simp: check_result_def split: pyval.splits if_splits)

lemma apply_binop_DivisionByZero:
  assumes "\<And>e. f l r \<noteq> Inl (ValueError e)"
  shows "(apply_binop f l r = Inl (ValueError DivisionByZero)) = (f l r = Inl ZeroDivisionError)"
  using assms
  by (auto simp: apply_binop_def dest: check_result_ValueError split: sum.splits exn.splits)

lemma apply_binop_ValueError:
  assumes "\<And>e. f l r \<noteq> Inl (ValueError e)" and "apply_binop f l r = Inl (ValueError e)"
  shows "e = DivisionByZero \<or> e = ResultOutOfRange"
  using assms
  by (auto simp: apply_binop_def dest: check_result_ValueError split: sum.splits exn.splits)

lemma pow_node_errors:
  assumes "eval_node cpow l = Inr lv" and "eval_node cpow r = Inr rv"
  shows "(eval_node cpow (BinOp l Pow_op r) = Inl (ValueError ExponentTooLarge))
           = fgt (fabs rv) (Finite 10)"
    and "(eval_node cpow (BinOp l Pow_op r) = Inl (ValueError BaseTooLarge))
           = (\<not> fgt (fabs rv) (Finite 10) \<and> fgt (fabs lv) (Finite 1000000))"
  using assms apply_binop_ValueError[of "float_pow cpow" lv rv, OF float_pow_not_ValueError]
  by (auto simp: allowed_binops_def max_abs_exponent_def max_abs_base_for_pow_def)

lemma binop_division_by_zero:
  assumes "eval_node cpow l = Inr lv" and "eval_node cpow r = Inr rv"
  shows "(eval_node cpow (BinOp l op r) = Inl (ValueError DivisionByZero))
         = ((op = Div \<or> op = FloorDiv \<or> op = Mod) \<and> feq rv (Finite 0)
            \<or> op = Pow_op \<and> feq lv (Finite 0) \<and> flt rv (Finite 0)
               \<and> \<not> fgt (fabs rv) (Finite 10))"
proof (cases op)
  case Pow_op
  have "fgt (fabs rv) (Finite 10)" if "is_inf rv"
    using that by (cases rv) (simp_all add: fgt_def)
  moreover have "\<not> fgt (fabs lv) (Finite 1000000)" if "feq lv (Finite 0)"
    using that by (cases lv) (simp_all add: fgt_def)
  ultimately show ?thesis
    using assms Pow_op
      apply_binop_DivisionByZero[of "float_pow cpow" lv rv, OF float_pow_not_ValueError]
    by (auto simp: allowed_binops_def max_abs_exponent_def max_abs_base_for_pow_def
        float_pow_ZeroDivisionError)
next
  case Div
  then show ?thesis
    using assms apply_binop_DivisionByZero[of float_div lv rv]
    by (simp add: allowed_binops_def float_div_Inl)
next
  case Mod
  then show ?thesis
    using assms apply_binop_DivisionByZero[of float_rem lv rv]
    by (simp add: allowed_binops_def float_rem_Inl)
next
  case FloorDiv
  then show ?thesis
    using assms apply_binop_DivisionByZero[of float_floor_div lv rv]
    by (simp add: allowed_binops_def float_floor_div_Inl)
qed (use assms in \<open>auto simp: allowed_binops_def apply_binop_def
      dest: check_result_ValueError split: sum.splits exn.splits\<close>)

subsection \<open>The guards of the power operator\<close>

text \<open>
  Claim C4. At a power node whose operands evaluate to \<open>lv\<close> and \<open>rv\<close>, the evaluation fails
  with \<open>ExponentTooLarge\<close> exactly when \<open>|rv| > 10\<close>, and with \<open>BaseTooLarge\<close> exactly when
  the exponent passes and \<open>|lv| > 10\<^sup>6\<close>; the exponent is tested first. So \<^verbatim>\<open>2**20\<close> fails
  with \<open>ExponentTooLarge\<close> and \<^verbatim>\<open>1e7**2\<close> with \<open>BaseTooLarge\<close>, while the magnitudes \<open>10\<close> and
  \<open>10\<^sup>6\<close> themselves pass: \<^verbatim>\<open>2**10\<close> is \<open>1024.0\<close> and \<^verbatim>\<open>1e6**2\<close> is \<open>10\<^sup>1\<^sup>2\<close>.
\<close>

theorem pow_guards:
  assumes "eval_node cpow l = Inr lv" and "eval_node cpow r = Inr rv"
  shows "(eval_node cpow (BinOp l Pow_op r) = Inl (ValueError ExponentTooLarge))
           = fgt (fabs rv) (Finite 10)
         \<and> (eval_node cpow (BinOp l Pow_op r) = Inl (ValueError BaseTooLarge))
           = (\<not> fgt (fabs rv) (Finite 10) \<and> fgt (fabs lv) (Finite 1000000))
         \<and> safe_eval cpython ''2**20'' = Inl (ValueError ExponentTooLarge)
         \<and> safe_eval cpython ''1e7**2'' = Inl (ValueError BaseTooLarge)
         \<and> safe_eval cpython ''2**10'' = Inr (Finite 1024)
         \<and> safe_eval cpython ''1e6**2'' = Inr (Finite 1000000000000)"
proof -
  have "safe_eval cpython ''2**20'' = Inl (ValueError ExponentTooLarge)"
    by (simp add: parse_eval node_eval float_eval cong: let_weak_cong)
  moreover have "safe_eval cpython ''1e7**2'' = Inl (ValueError BaseTooLarge)"
    by (simp add: parse_eval node_eval float_eval cong: let_weak_cong)
  moreover have "safe_eval cpython ''2**10'' = Inr (Finite 1024)"
    by (simp add: parse_eval node_eval float_eval cong: let_weak_cong)
  moreover have "safe_eval cpython ''1e6**2'' = Inr (Finite 1000000000000)"
    by (simp add: parse_eval node_eval float_eval cong: let_weak_cong)
  ultimately show ?thesis
    using pow_node_errors[OF assms] by (intro conjI)
qed

theorem pow_guards_witness:
  "eval_node correctly_rounded_pow (BinOp (Constant (CInt 2)) Pow_op (Constant (CInt 20)))
     = Inl (ValueError ExponentTooLarge)
   \<and> eval_node correctly_rounded_pow (BinOp (Constant (CInt 2)) Pow_op (Constant (CInt 20)))
     \<noteq> Inl (ValueError BaseTooLarge)"
proof -
  have l: "eval_node correctly_rounded_pow (Constant (CInt 2)) = Inr (Finite 2)"
    by (simp add: node_eval float_eval cong: let_weak_cong)
  have r: "eval_node correctly_rounded_pow (Constant (CInt 20)) = Inr (Finite 20)"
    by (simp add: node_eval float_eval cong: let_weak_cong)
  from pow_guards[OF l r] show ?thesis
    by (simp add: fgt_def)
qed

subsection \<open>Division by zero\<close>

text \<open>
  Claim C5 says that only \<^verbatim>\<open>/\<close>, \<^verbatim>\<open>//\<close> and \<^verbatim>\<open>%\<close> produce \<open>DivisionByZero\<close>. The power
  operator produces it too: \<^verbatim>\<open>0**-1\<close> parses to a power node, Python raises
  \<^verbatim>\<open>ZeroDivisionError\<close> on a zero base with a negative exponent, and the \<^verbatim>\<open>try\<close> around the
  operator turns it into the same error.
\<close>

theorem pow_division_by_zero:
  "py_parse ''0**-1''
     = Some (Expression (BinOp (Constant (CInt 0)) Pow_op (UnaryOp USub (Constant (CInt 1)))))
   \<and> safe_eval cpython ''0**-1'' = Inl (ValueError DivisionByZero)"
proof -
  have "py_parse ''0**-1''
     = Some (Expression (BinOp (Constant (CInt 0)) Pow_op (UnaryOp USub (Constant (CInt 1)))))"
    by (simp add: parse_eval cong: let_weak_cong)
  moreover have "safe_eval cpython ''0**-1'' = Inl (ValueError DivisionByZero)"
    by (simp add: parse_eval node_eval float_eval cong: let_weak_cong)
  ultimately show ?thesis
    by (intro conjI)
qed

text \<open>
  Claim C5, amended. A binary node whose operands evaluate to \<open>lv\<close> and \<open>rv\<close> fails with
  \<open>DivisionByZero\<close> if and only if its operator is \<^verbatim>\<open>/\<close>, \<^verbatim>\<open>//\<close> or \<^verbatim>\<open>%\<close> and \<open>rv\<close> is zero, or
  its operator is \<^verbatim>\<open>**\<close>, \<open>lv\<close> is zero and \<open>rv\<close> is negative and passes the exponent guard.
  In particular \<^verbatim>\<open>1/0\<close>, \<^verbatim>\<open>5//0\<close> and \<^verbatim>\<open>5%0\<close> fail with \<open>DivisionByZero\<close>.
\<close>

theorem division_by_zero_iff:
  assumes "eval_node cpow l = Inr lv" and "eval_node cpow r = Inr rv"
  shows "(eval_node cpow (BinOp l op r) = Inl (ValueError DivisionByZero))
           = ((op = Div \<or> op = FloorDiv \<or> op = Mod) \<and> feq rv (Finite 0)
              \<or> op = Pow_op \<and> feq lv (Finite 0) \<and> flt rv (Finite 0)
                 \<and> \<not> fgt (fabs rv) (Finite 10))
         \<and> safe_eval cpython ''1/0'' = Inl (ValueError DivisionByZero)
         \<and> safe_eval cpython ''5//0'' = Inl (ValueError DivisionByZero)
         \<and> safe_eval cpython ''5%0'' = Inl (ValueError DivisionByZero)"
proof -
  have "safe_eval cpython ''1/0'' = Inl (ValueError DivisionByZero)"
    by (simp add: parse_eval node_eval float_eval cong: let_weak_cong)
  moreover have "safe_eval cpython ''5//0'' = Inl (ValueError DivisionByZero)"
    by (simp add: parse_eval node_eval float_eval cong: let_weak_cong)
  moreover have "safe_eval cpython ''5%0'' = Inl (ValueError DivisionByZero)"
    by (simp add: parse_eval node_eval float_eval cong: let_weak_cong)
  ultimately show ?thesis
    using binop_division_by_zero[OF assms] by (intro conjI)
qed

theorem division_by_zero_iff_witness:
  "eval_node correctly_rounded_pow (BinOp (Constant (CInt 1)) Div (Constant (CInt 0)))
     = Inl (ValueError DivisionByZero)
   \<and> eval_node correctly_rounded_pow (BinOp (Constant (CInt 1)) Add (Constant (CInt 0)))
     \<noteq> Inl (ValueError DivisionByZero)"
proof -
  have l: "eval_node correctly_rounded_pow (Constant (CInt 1)) = Inr (Finite 1)"
    by (simp add: node_eval float_eval cong: let_weak_cong)
  have r: "eval_node correctly_rounded_pow (Constant (CInt 0)) = Inr (Finite 0)"
    by (simp add: node_eval float_eval cong: let_weak_cong)
  from division_by_zero_iff[OF l r, of Div] division_by_zero_iff[OF l r, of Add]
  show ?thesis
    by simp
qed

end
